theory Spec2Isabelle
  imports Main
begin

section \<open>Field declarations\<close>

text \<open>
  Both source files consist of model classes whose bodies are field declarations. A
  declaration is kept as data: the field class with its positional argument (the
  maximal length of a character field, the target model of a relation) and the keyword
  options that occur in the source. \<open>Field\<close> gives the options their values when the
  declaration does not write them: a column is required (\<open>null = False\<close>,
  \<open>blank = False\<close>), it has no choices, no default and no related name.
\<close>

datatype field_type =
    CharField nat
  | DateTimeField
  | IntegerField
  | ForeignKey string
  | ManyToManyField string

record field_decl =
  ftype :: field_type
  null_opt :: bool
  blank_opt :: bool
  choices_opt :: "(int \<times> string) list"
  default_opt :: "int option"
  related_name_opt :: "string option"

definition Field :: "field_type \<Rightarrow> field_decl" where
  "Field t = \<lparr>ftype = t, null_opt = False, blank_opt = False, choices_opt = [],
     default_opt = None, related_name_opt = None\<rparr>"

section \<open>user/models.py\<close>

definition MALE :: int where "MALE = 1"
definition FEMALE :: int where "FEMALE = 2"
definition NA :: int where "NA = 3"
definition ALIEN :: int where "ALIEN = 4"

definition GENDER_OPTIONS :: "(int \<times> string) list" where
  "GENDER_OPTIONS = [(MALE, ''Male''), (FEMALE, ''Female''), (NA, ''N/A''), (ALIEN, ''Alien'')]"

definition User_name_field :: field_decl where
  "User_name_field = Field (CharField 200)"

definition User_code_name_field :: field_decl where
  "User_code_name_field = Field (CharField 400)"

definition User_date_field :: field_decl where
  "User_date_field = Field DateTimeField"

definition User_base_level_field :: field_decl where
  "User_base_level_field = Field IntegerField"

definition User_power_level_field :: field_decl where
  "User_power_level_field = Field IntegerField"

definition User_gender_field :: field_decl where
  "User_gender_field = (Field IntegerField)\<lparr>choices_opt := GENDER_OPTIONS, default_opt := Some NA\<rparr>"

definition User_update_count_field :: field_decl where
  "User_update_count_field = Field IntegerField"

text \<open>
  A \<open>User\<close> object. Every attribute is an option: \<open>None\<close> is Python's \<open>None\<close> on the
  object and SQL's NULL in the row. \<open>user_id\<close> is the primary key, \<open>None\<close> until the
  object has been saved. A timestamp is an integer. The two columns inherited from
  \<open>AbstractBaseUser\<close> (password, last login) are declared by the framework, take part in
  no relation and no lookup of these files, and are left out.
\<close>

record user =
  user_id :: "nat option"
  user_name :: "string option"
  code_name :: "string option"
  date :: "int option"
  base_level :: "int option"
  power_level :: "int option"
  gender :: "int option"
  update_count :: "int option"

text \<open>The manager classes of the file, and the managers of \<open>User\<close> in declaration order.\<close>

datatype manager = Manager | STLUserManger

definition User_objects :: manager where
  "User_objects = Manager"

definition User_stl_objects :: manager where
  "User_stl_objects = STLUserManger"

definition User_managers :: "(string \<times> manager) list" where
  "User_managers = [(''objects'', User_objects), (''stl_objects'', User_stl_objects)]"

section \<open>address/models.py\<close>

definition Address_street_field :: field_decl where
  "Address_street_field = Field (CharField 200)"

definition Address_user_field :: field_decl where
  "Address_user_field = Field (ForeignKey ''User'')"

definition Address_gangsta_users_field :: field_decl where
  "Address_gangsta_users_field =
     (Field (ManyToManyField ''User''))\<lparr>null_opt := True, blank_opt := True,
        related_name_opt := Some ''gangstas''\<rparr>"

definition City_address_field :: field_decl where
  "City_address_field = Field (ForeignKey ''Address'')"

definition City_name_field :: field_decl where
  "City_name_field = Field (CharField 300)"

text \<open>
  A foreign key is a column holding the primary key of the row it refers to. A
  many-to-many field is no column of its model: its members are the rows of a join table
  of (address id, user id) pairs, kept in the database state below.
\<close>

record address =
  address_id :: "nat option"
  street :: "string option"
  address_user :: "nat option"

record city =
  city_id :: "nat option"
  city_address :: "nat option"
  city_name :: "string option"

section \<open>The persisted state\<close>

record db =
  users :: "user list"
  addresses :: "address list"
  address_gangsta_users :: "(nat \<times> nat) list"
  cities :: "city list"


datatype db_error = IntegrityError | DataError

section \<open>Creating and saving objects\<close>






text \<open>
  Saving writes the row as it is. The check that every backend makes on the way is the
  NOT NULL constraint of each column whose declaration has \<open>null = False\<close>; the choices
  of a field are not consulted. An object without a primary key is inserted under a fresh
  key; an object with one replaces the row of that key, or is inserted under it when
  there is no such row.

  Whether a foreign key that refers to no row is rejected as well is decided by the
  storage backend and not by these files. It is the parameter \<open>supports_foreign_keys\<close>
  of \<open>Address_save\<close>: what is proved below holds for both of its values.

  An integer column holds the values from -2147483648 to 2147483647 on every backend.
  What becomes of a value outside this range differs between backends; the save below
  refuses it with a data error, and nothing is stated below about what is stored for
  such a value.
\<close>

definition not_null_ok :: "field_decl \<Rightarrow> 'a option \<Rightarrow> bool" where
  "not_null_ok f v = (case v of None \<Rightarrow> null_opt f | Some x \<Rightarrow> True)"

definition next_id :: "nat option list \<Rightarrow> nat" where
  "next_id ks = Suc (fold max (List.map_filter id ks) 0)"

definition User_columns_ok :: "user \<Rightarrow> bool" where
  "User_columns_ok u =
     (not_null_ok User_name_field (user_name u) \<and>
      not_null_ok User_code_name_field (code_name u) \<and>
      not_null_ok User_date_field (date u) \<and>
      not_null_ok User_base_level_field (base_level u) \<and>
      not_null_ok User_power_level_field (power_level u) \<and>
      not_null_ok User_gender_field (gender u) \<and>
      not_null_ok User_update_count_field (update_count u))"

definition integer_in_range :: "int \<Rightarrow> bool" where
  "integer_in_range v = (- 2147483648 \<le> v \<and> v \<le> 2147483647)"

definition integer_ok :: "int option \<Rightarrow> bool" where
  "integer_ok v = (case v of None \<Rightarrow> True | Some x \<Rightarrow> integer_in_range x)"

definition User_integers_ok :: "user \<Rightarrow> bool" where
  "User_integers_ok u =
     (integer_ok (base_level u) \<and> integer_ok (power_level u) \<and>
      integer_ok (gender u) \<and> integer_ok (update_count u))"

definition User_save :: "user \<Rightarrow> db \<Rightarrow> (db_error + user) \<times> db" where
  "User_save u s =
     (if \<not> User_columns_ok u then (Inl IntegrityError, s)
      else if \<not> User_integers_ok u then (Inl DataError, s)
      else case user_id u of
        None \<Rightarrow>
          (let u' = u\<lparr>user_id := Some (next_id (map user_id (users s)))\<rparr>
           in (Inr u', s\<lparr>users := users s @ [u']\<rparr>))
      | Some k \<Rightarrow>
          (if Some k \<in> set (map user_id (users s))
           then (Inr u, s\<lparr>users := map (\<lambda>r. if user_id r = Some k then u else r) (users s)\<rparr>)
           else (Inr u, s\<lparr>users := users s @ [u]\<rparr>)))"

definition Address_columns_ok :: "address \<Rightarrow> bool" where
  "Address_columns_ok a =
     (not_null_ok Address_street_field (street a) \<and>
      not_null_ok Address_user_field (address_user a))"

definition owner_exists :: "address \<Rightarrow> db \<Rightarrow> bool" where
  "owner_exists a s =
     (case address_user a of None \<Rightarrow> False | Some k \<Rightarrow> Some k \<in> set (map user_id (users s)))"

definition Address_save :: "bool \<Rightarrow> address \<Rightarrow> db \<Rightarrow> (db_error + address) \<times> db" where
  "Address_save supports_foreign_keys a s =
     (if \<not> Address_columns_ok a then (Inl IntegrityError, s)
      else if supports_foreign_keys \<and> \<not> owner_exists a s then (Inl IntegrityError, s)
      else case address_id a of
        None \<Rightarrow>
          (let a' = a\<lparr>address_id := Some (next_id (map address_id (addresses s)))\<rparr>
           in (Inr a', s\<lparr>addresses := addresses s @ [a']\<rparr>))
      | Some k \<Rightarrow>
          (if Some k \<in> set (map address_id (addresses s))
           then (Inr a, s\<lparr>addresses :=
                   map (\<lambda>r. if address_id r = Some k then a else r) (addresses s)\<rparr>)
           else (Inr a, s\<lparr>addresses := addresses s @ [a]\<rparr>)))"

section \<open>The many-to-many relation\<close>

text \<open>
  \<open>address.gangsta_users.all()\<close>, \<open>.add(user)\<close> and \<open>.remove(user)\<close>, with the address and
  the user given by their primary keys. Adding a member that is already there adds no
  second row.
\<close>

definition gangsta_users_all :: "nat \<Rightarrow> db \<Rightarrow> user list \<times> db" where
  "gangsta_users_all a s =
     (concat (map (\<lambda>p. if fst p = a then filter (\<lambda>u. user_id u = Some (snd p)) (users s) else [])
                  (address_gangsta_users s)), s)"

definition gangsta_users_add :: "nat \<Rightarrow> nat \<Rightarrow> db \<Rightarrow> unit \<times> db" where
  "gangsta_users_add a u s =
     ((), if (a, u) \<in> set (address_gangsta_users s) then s
          else s\<lparr>address_gangsta_users := address_gangsta_users s @ [(a, u)]\<rparr>)"

definition gangsta_users_remove :: "nat \<Rightarrow> nat \<Rightarrow> db \<Rightarrow> unit \<times> db" where
  "gangsta_users_remove a u s =
     ((), s\<lparr>address_gangsta_users := filter (\<lambda>p. p \<noteq> (a, u)) (address_gangsta_users s)\<rparr>)"

section \<open>Managers and the filtered query\<close>

text \<open>
  \<open>iexact\<close> compares two strings after folding the letters \<open>A\<close> to \<open>Z\<close> to lower case;
  a NULL column matches nothing.
\<close>

definition to_lower :: "char \<Rightarrow> char" where
  "to_lower c =
     (case map_of (zip ''ABCDEFGHIJKLMNOPQRSTUVWXYZ'' ''abcdefghijklmnopqrstuvwxyz'') c of
        Some l \<Rightarrow> l
      | None \<Rightarrow> c)"

definition iexact :: "string option \<Rightarrow> string \<Rightarrow> bool" where
  "iexact col v = (case col of None \<Rightarrow> False | Some s \<Rightarrow> map to_lower s = map to_lower v)"

text \<open>
  \<open>filter(address__city__name__iexact=v)\<close> on a collection of users. From \<open>User\<close>,
  \<open>address\<close> names the reverse of the foreign key \<open>Address.user\<close> (the many-to-many field
  has the related name \<open>gangstas\<close>, so it is not the relation meant), \<open>city\<close> the reverse
  of \<open>City.address\<close>, \<open>name\<close> the column of \<open>City\<close>. The query is the inner join of the
  three tables along the two keys, one result row for each joined row that passes the
  comparison. A NULL key joins with nothing. Evaluating the query reads the state and
  returns it as it was.
\<close>

definition filter_address__city__name__iexact ::
  "string \<Rightarrow> user list \<Rightarrow> db \<Rightarrow> user list \<times> db" where
  "filter_address__city__name__iexact v qs s =
     (concat (map (\<lambda>u.
        concat (map (\<lambda>a.
          concat (map (\<lambda>c.
            if user_id u \<noteq> None \<and> address_user a = user_id u \<and>
               address_id a \<noteq> None \<and> city_address c = address_id a \<and>
               iexact (city_name c) v
            then [u] else [])
          (cities s)))
        (addresses s)))
      qs), s)"

definition Manager_get_query_set :: "db \<Rightarrow> user list \<times> db" where
  "Manager_get_query_set s = (users s, s)"

definition STLUserManger_get_query_set :: "db \<Rightarrow> user list \<times> db" where
  "STLUserManger_get_query_set s =
     (case Manager_get_query_set s of
        (qs, s') \<Rightarrow> filter_address__city__name__iexact ''stl'' qs s')"

text \<open>
  \<open>get_query_set\<close> is the method from which a manager builds every query in the
  framework releases that have it under this name, the ones the source is written for
  (a foreign key without \<open>on_delete\<close>, \<open>null\<close> on a many-to-many field). The method that
  a manager's \<open>all()\<close> calls is the one of its class: \<open>objects\<close> is a plain \<open>Manager\<close>,
  \<open>stl_objects\<close> a \<open>STLUserManger\<close>. The rows come back in the order of the nested
  loops; the query asks for no order, and nothing below depends on it.
\<close>

definition get_query_set :: "manager \<Rightarrow> db \<Rightarrow> user list \<times> db" where
  "get_query_set m s =
     (case m of Manager \<Rightarrow> Manager_get_query_set s
              | STLUserManger \<Rightarrow> STLUserManger_get_query_set s)"

definition Manager_all :: "manager \<Rightarrow> db \<Rightarrow> user list \<times> db" where
  "Manager_all m s = get_query_set m s"

section \<open>What the filtered accessor is specified to select\<close>

text \<open>
  The selection in the words of the specification, to compare the query with: the user
  has an associated address (the address's owner key is the user's key), the address has
  an associated city (the city's address key is the address's key), and the city's name
  is \<open>stl\<close> once its capital letters are folded. \<open>stl_paths\<close> counts the (address, city)
  pairs through which a user is selected.
\<close>

definition stl_path :: "user \<Rightarrow> address \<Rightarrow> city \<Rightarrow> bool" where
  "stl_path u a c =
     (user_id u \<noteq> None \<and> address_user a = user_id u \<and>
      address_id a \<noteq> None \<and> city_address c = address_id a \<and>
      (case city_name c of None \<Rightarrow> False | Some n \<Rightarrow> map to_lower n = ''stl''))"

definition stl_paths :: "db \<Rightarrow> user \<Rightarrow> nat" where
  "stl_paths s u =
     length (filter (\<lambda>(a, c). stl_path u a c) (List.product (addresses s) (cities s)))"

section \<open>Example states\<close>

text \<open>
  The end-to-end scenario of the specification: user 1 owns an address in a city named
  \<open>STL\<close>, user 2 an address in \<open>Chicago\<close>. Then a state without the first city, a state
  where user 1 owns two addresses with a matching city each, and a state where the one
  address of user 1 has two matching cities.
\<close>

definition example_user :: "nat \<Rightarrow> user" where
  "example_user k =
     \<lparr>user_id = Some k, user_name = Some ''u'', code_name = Some ''c'', date = Some 0,
      base_level = Some 1, power_level = Some 2, gender = Some NA, update_count = Some 0\<rparr>"

definition example_address :: "nat \<Rightarrow> nat \<Rightarrow> address" where
  "example_address k owner = \<lparr>address_id = Some k, street = Some ''s'', address_user = Some owner\<rparr>"

definition example_city :: "nat \<Rightarrow> nat \<Rightarrow> string \<Rightarrow> city" where
  "example_city k a n = \<lparr>city_id = Some k, city_address = Some a, city_name = Some n\<rparr>"

definition scenario_db :: db where
  "scenario_db =
     \<lparr>users = [example_user 1, example_user 2],
      addresses = [example_address 1 1, example_address 2 2],
      address_gangsta_users = [],
      cities = [example_city 1 1 ''STL'', example_city 2 2 ''Chicago'']\<rparr>"

definition chicago_db :: db where
  "chicago_db =
     \<lparr>users = [example_user 1, example_user 2],
      addresses = [example_address 1 1, example_address 2 2],
      address_gangsta_users = [],
      cities = [example_city 2 2 ''Chicago'']\<rparr>"

definition two_address_db :: db where
  "two_address_db =
     \<lparr>users = [example_user 1],
      addresses = [example_address 1 1, example_address 2 1],
      address_gangsta_users = [],
      cities = [example_city 1 1 ''stl'', example_city 2 2 ''Stl'']\<rparr>"

definition two_city_db :: db where
  "two_city_db =
     \<lparr>users = [example_user 1],
      addresses = [example_address 1 1],
      address_gangsta_users = [],
      cities = [example_city 1 1 ''stl'', example_city 2 1 ''STL'']\<rparr>"

definition unowned_address :: address where
  "unowned_address = \<lparr>address_id = None, street = Some ''s'', address_user = None\<rparr>"

definition new_address :: address where
  "new_address = \<lparr>address_id = None, street = Some ''s'', address_user = Some 2\<rparr>"

section \<open>The gender codes\<close>



section \<open>The query as a join\<close>

lemma to_lower_stl: "map to_lower ''stl'' = ''stl''"
  by (simp add: to_lower_def)

lemma iexact_stl:
  "iexact col ''stl'' = (case col of None \<Rightarrow> False | Some n \<Rightarrow> map to_lower n = ''stl'')"
  unfolding iexact_def to_lower_stl by (rule refl)

lemma stl_objects_unfold:
  "Manager_all User_stl_objects s = filter_address__city__name__iexact ''stl'' (users s) s"
  by (simp add: Manager_all_def User_stl_objects_def get_query_set_def
      STLUserManger_get_query_set_def Manager_get_query_set_def)

lemma filter_join_cond:
  "fst (filter_address__city__name__iexact ''stl'' qs s) =
     concat (map (\<lambda>u. concat (map (\<lambda>a. concat (map (\<lambda>c. if stl_path u a c then [u] else [])
        (cities s))) (addresses s))) qs)"
  unfolding filter_address__city__name__iexact_def stl_path_def iexact_stl by simp

lemma concat_if_replicate:
  "concat (map (\<lambda>c. if P c then [u] else []) cs) = replicate (length (filter P cs)) u"
  by (induction cs) simp_all

lemma concat_replicate:
  "concat (map (\<lambda>a. replicate (n a) u) xs) = replicate (sum_list (map n xs)) u"
  by (induction xs) (simp_all add: replicate_add)

lemma length_filter_product:
  "length (filter (\<lambda>(a, c). P a c) (List.product xs cs)) =
     sum_list (map (\<lambda>a. length (filter (P a) cs)) xs)"
  by (induction xs) (simp_all add: filter_map comp_def)

lemma join_replicate:
  "fst (filter_address__city__name__iexact ''stl'' qs s) =
     concat (map (\<lambda>u. replicate (stl_paths s u) u) qs)"
  unfolding filter_join_cond stl_paths_def
  by (simp add: concat_if_replicate concat_replicate length_filter_product)

lemma count_list_replicate:
  "count_list (replicate n x) y = (if x = y then n else 0)"
  by (induction n) auto

lemma count_concat_replicate:
  "count_list (concat (map (\<lambda>u. replicate (k u) u) qs)) v = count_list qs v * k v"
  by (induction qs) (simp_all add: count_list_replicate algebra_simps)

lemma stl_paths_pos:
  "0 < stl_paths s u \<longleftrightarrow> (\<exists>a\<in>set (addresses s). \<exists>c\<in>set (cities s). stl_path u a c)"
  unfolding stl_paths_def length_greater_0_conv
  by (auto simp: filter_empty_conv)

lemma set_join:
  "set (fst (filter_address__city__name__iexact ''stl'' qs s)) =
     {u \<in> set qs. \<exists>a\<in>set (addresses s). \<exists>c\<in>set (cities s). stl_path u a c}"
  unfolding join_replicate
  using stl_paths_pos by (auto simp: set_replicate_conv_if)

lemmas example_defs =
  scenario_db_def chicago_db_def two_address_db_def two_city_db_def
  example_user_def example_address_def example_city_def

section \<open>The filtered accessor \<open>stl_objects\<close>\<close>

text \<open>
  C1. In every state, the users returned by \<open>stl_objects\<close> are exactly the stored users
  that have an associated address with an associated city whose name equals \<open>stl\<close> when
  case is ignored. The names \<open>STL\<close>, \<open>Stl\<close> and \<open>stl\<close> match; \<open>St. Louis\<close> does not.
\<close>

theorem stl_objects_exact:
  "set (fst (Manager_all User_stl_objects s)) =
     {u \<in> set (users s). \<exists>a\<in>set (addresses s). \<exists>c\<in>set (cities s). stl_path u a c} \<and>
   iexact (Some ''STL'') ''stl'' \<and> iexact (Some ''Stl'') ''stl'' \<and>
   iexact (Some ''stl'') ''stl'' \<and> \<not> iexact (Some ''St. Louis'') ''stl''"
proof -
  have "set (fst (Manager_all User_stl_objects s)) =
     {u \<in> set (users s). \<exists>a\<in>set (addresses s). \<exists>c\<in>set (cities s). stl_path u a c}"
    unfolding stl_objects_unfold by (rule set_join)
  moreover have "iexact (Some ''STL'') ''stl''" "iexact (Some ''Stl'') ''stl''"
    "iexact (Some ''stl'') ''stl''" "\<not> iexact (Some ''St. Louis'') ''stl''"
    by (simp_all add: iexact_def to_lower_def)
  ultimately show ?thesis by simp
qed

text \<open>In the scenario state the accessor returns user 1 and not user 2.\<close>

theorem stl_objects_exact_witness:
  "set (fst (Manager_all User_stl_objects scenario_db)) = {example_user 1}"
proof -
  have "{u \<in> set (users scenario_db).
          \<exists>a\<in>set (addresses scenario_db). \<exists>c\<in>set (cities scenario_db). stl_path u a c}
        = {example_user 1}"
    by (auto simp: example_defs stl_path_def to_lower_def)
  then show ?thesis using stl_objects_exact [of scenario_db] by simp
qed

text \<open>
  C4. In every state in which no user has an associated address with a city whose name
  matches \<open>stl\<close>, \<open>stl_objects\<close> returns the empty collection; the evaluation has no
  failing branch.
\<close>

theorem stl_objects_no_match:
  "\<not> (\<exists>u\<in>set (users s). \<exists>a\<in>set (addresses s). \<exists>c\<in>set (cities s). stl_path u a c)
   \<Longrightarrow> fst (Manager_all User_stl_objects s) = []"
proof -
  assume h: "\<not> (\<exists>u\<in>set (users s). \<exists>a\<in>set (addresses s). \<exists>c\<in>set (cities s). stl_path u a c)"
  have "set (fst (Manager_all User_stl_objects s)) = {}"
    unfolding stl_objects_unfold set_join using h by blast
  then show ?thesis by simp
qed

theorem stl_objects_no_match_witness:
  "\<not> (\<exists>u\<in>set (users chicago_db). \<exists>a\<in>set (addresses chicago_db).
        \<exists>c\<in>set (cities chicago_db). stl_path u a c) \<and>
   fst (Manager_all User_stl_objects chicago_db) = []"
proof -
  have h: "\<not> (\<exists>u\<in>set (users chicago_db). \<exists>a\<in>set (addresses chicago_db).
        \<exists>c\<in>set (cities chicago_db). stl_path u a c)"
    by (simp add: example_defs stl_path_def to_lower_def)
  show ?thesis using h stl_objects_no_match [OF h] by simp
qed

text \<open>
  C7. Evaluating \<open>stl_objects\<close> is read-only: in every state it returns the state as it
  was, with all stored users, addresses, cities and memberships.
\<close>

theorem stl_objects_read_only: "snd (Manager_all User_stl_objects s) = s"
  unfolding stl_objects_unfold by (simp add: filter_address__city__name__iexact_def)

text \<open>
  C8. The result is not deduplicated: a user occurs in it once for each matching
  (address, city) pair. So in the state where user 1 owns two addresses with a matching
  city each, and in the state where the one address of user 1 has two matching cities,
  user 1 is stored once and returned twice.
\<close>

theorem stl_objects_one_entry_per_path:
  "count_list (fst (Manager_all User_stl_objects s)) u = count_list (users s) u * stl_paths s u \<and>
   users two_address_db = [example_user 1] \<and>
   fst (Manager_all User_stl_objects two_address_db) = [example_user 1, example_user 1] \<and>
   users two_city_db = [example_user 1] \<and>
   fst (Manager_all User_stl_objects two_city_db) = [example_user 1, example_user 1]"
proof -
  have "count_list (fst (Manager_all User_stl_objects s)) u = count_list (users s) u * stl_paths s u"
    unfolding stl_objects_unfold join_replicate by (rule count_concat_replicate)
  moreover have "fst (Manager_all User_stl_objects two_address_db) = [example_user 1, example_user 1]"
    unfolding stl_objects_unfold
    by (simp add: filter_address__city__name__iexact_def example_defs iexact_def to_lower_def)
  moreover have "fst (Manager_all User_stl_objects two_city_db) = [example_user 1, example_user 1]"
    unfolding stl_objects_unfold
    by (simp add: filter_address__city__name__iexact_def example_defs iexact_def to_lower_def)
  moreover have "users two_address_db = [example_user 1]" "users two_city_db = [example_user 1]"
    by (simp_all add: two_address_db_def two_city_db_def)
  ultimately show ?thesis by simp
qed

section \<open>The default accessor \<open>objects\<close>\<close>

text \<open>
  C9. \<open>objects\<close> is the first manager declared on \<open>User\<close>, and in every state it returns
  all stored users, whatever addresses and cities there are.
\<close>

theorem objects_returns_all_users:
  "fst (Manager_all User_objects s) = users s \<and> fst (hd User_managers) = ''objects''"
  by (simp add: Manager_all_def User_objects_def get_query_set_def Manager_get_query_set_def
      User_managers_def)

section \<open>The gender field\<close>

lemmas field_defs =
  Field_def User_name_field_def User_code_name_field_def User_date_field_def
  User_base_level_field_def User_power_level_field_def User_gender_field_def
  User_update_count_field_def Address_street_field_def Address_user_field_def














lemma User_save_out_of_range:
  "User_columns_ok u \<Longrightarrow> \<not> User_integers_ok u \<Longrightarrow> User_save u s = (Inl DataError, s)"
  by (simp add: User_save_def)






section \<open>The owner of an address\<close>

lemma Address_save_addresses:
  "set (addresses (snd (Address_save fk a s))) \<subseteq>
     insert (a\<lparr>address_id := Some (next_id (map address_id (addresses s)))\<rparr>)
       (insert a (set (addresses s)))"
  by (auto simp: Address_save_def Let_def split: option.splits if_splits)

lemma Address_save_unowned:
  "address_user a = None \<Longrightarrow> Address_save fk a s = (Inl IntegrityError, s)"
  by (simp add: Address_save_def Address_columns_ok_def not_null_ok_def field_defs)

lemma ex1_Some: "(\<exists>!k. x = Some k) \<longleftrightarrow> x \<noteq> None"
  by auto

text \<open>
  C5. \<open>Address.user\<close> is a foreign key to \<open>User\<close> that does not allow NULL. Saving an
  address without an owner fails with an integrity error and leaves the state as it was;
  so saving keeps every stored address with exactly one owner key.
\<close>

theorem address_owner_required:
  "ftype Address_user_field = ForeignKey ''User'' \<and> \<not> null_opt Address_user_field \<and>
   (address_user a = None \<longrightarrow> Address_save fk a s = (Inl IntegrityError, s)) \<and>
   ((\<forall>r\<in>set (addresses s). \<exists>!k. address_user r = Some k) \<longrightarrow>
    (\<forall>r\<in>set (addresses (snd (Address_save fk a s))). \<exists>!k. address_user r = Some k))"
proof -
  have "\<forall>r\<in>set (addresses (snd (Address_save fk a s))). \<exists>!k. address_user r = Some k"
    if inv: "\<forall>r\<in>set (addresses s). \<exists>!k. address_user r = Some k"
  proof (cases "address_user a")
    case None
    then show ?thesis using inv by (simp add: Address_save_unowned)
  next
    case (Some k)
    then show ?thesis using inv Address_save_addresses [of fk a s]
      unfolding ex1_Some by auto
  qed
  then show ?thesis
    by (simp add: Address_save_unowned field_defs)
qed

theorem address_owner_required_witness:
  "address_user unowned_address = None \<and>
   Address_save True unowned_address scenario_db = (Inl IntegrityError, scenario_db) \<and>
   map address_user (addresses scenario_db) = [Some 1, Some 2] \<and>
   map address_user (addresses (snd (Address_save True new_address scenario_db))) =
     [Some 1, Some 2, Some 2] \<and>
   list_all (\<lambda>r. address_user r \<noteq> None)
     (addresses (snd (Address_save True new_address scenario_db)))"
proof -
  have h1: "address_user unowned_address = None"
    by (simp add: unowned_address_def)
  have h2: "\<forall>r\<in>set (addresses scenario_db). \<exists>!k. address_user r = Some k"
    by (simp add: example_defs)
  have m: "map address_user (addresses scenario_db) = [Some 1, Some 2]"
    by (simp add: example_defs)
  have e: "map address_user (addresses (snd (Address_save True new_address scenario_db))) =
     [Some 1, Some 2, Some 2]"
    by (simp add: Address_save_def Address_columns_ok_def not_null_ok_def owner_exists_def
        field_defs example_defs new_address_def Let_def)
  from h1 address_owner_required [of unowned_address True scenario_db]
  have f: "Address_save True unowned_address scenario_db = (Inl IntegrityError, scenario_db)"
    by blast
  from h2 address_owner_required [of new_address True scenario_db]
  have "\<forall>r\<in>set (addresses (snd (Address_save True new_address scenario_db))).
          \<exists>!k. address_user r = Some k"
    by blast
  then have g: "list_all (\<lambda>r. address_user r \<noteq> None)
     (addresses (snd (Address_save True new_address scenario_db)))"
    unfolding list_all_iff ex1_Some .
  from h1 f m e g show ?thesis by blast
qed

section \<open>The members of \<open>gangsta_users\<close>\<close>

text \<open>
  C6. Adding a member to \<open>gangsta_users\<close> and removing one change the join table only:
  the stored addresses, and with them the owner of each, are as before. The set may be
  empty: an address saved while there are no memberships is stored and has no members.
\<close>

theorem gangsta_users_frame:
  "addresses (snd (gangsta_users_add a u s)) = addresses s \<and>
   addresses (snd (gangsta_users_remove a u s)) = addresses s \<and>
   (a, u) \<in> set (address_gangsta_users (snd (gangsta_users_add a u s))) \<and>
   (a, u) \<notin> set (address_gangsta_users (snd (gangsta_users_remove a u s))) \<and>
   (fst (Address_save fk x s) = Inr x' \<and> address_gangsta_users s = [] \<longrightarrow>
      x' \<in> set (addresses (snd (Address_save fk x s))) \<and>
      fst (gangsta_users_all k (snd (Address_save fk x s))) = [])"
  by (auto simp: gangsta_users_add_def gangsta_users_remove_def gangsta_users_all_def
      Address_save_def Let_def split: option.splits if_splits)

theorem gangsta_users_frame_witness:
  "fst (Address_save True new_address scenario_db) = Inr (example_address 3 2) \<and>
   address_gangsta_users scenario_db = [] \<and>
   fst (gangsta_users_all 3 (snd (Address_save True new_address scenario_db))) = [] \<and>
   address_gangsta_users (snd (gangsta_users_add 1 2 scenario_db)) = [(1, 2)] \<and>
   addresses (snd (gangsta_users_add 1 2 scenario_db)) = addresses scenario_db"
proof -
  have h1: "fst (Address_save True new_address scenario_db) = Inr (example_address 3 2)"
    by (simp add: Address_save_def Address_columns_ok_def not_null_ok_def owner_exists_def
        field_defs example_defs new_address_def next_id_def List.map_filter_simps Let_def)
  have h2: "address_gangsta_users scenario_db = []"
    by (simp add: scenario_db_def)
  have h3: "address_gangsta_users (snd (gangsta_users_add 1 2 scenario_db)) = [(1, 2)]"
    by (simp add: gangsta_users_add_def scenario_db_def)
  from h1 h2 h3 gangsta_users_frame [of 1 2 scenario_db True new_address "example_address 3 2" 3]
  show ?thesis by simp
qed

end
